theory Spec2Isabelle
  imports Main "HOL-Library.DAList" "HOL-Library.Extended_Nat"
begin

section \<open>Values of the program\<close>

text \<open>
  The engine is the class \<open>WeightedGraph\<close> of \<open>src/main.js\<close> (lines 390-587). Node keys are
  strings. A JavaScript \<open>Map\<close> keeps its keys in insertion order, \<open>set\<close> on a present key
  keeps the key's position and \<open>set\<close> on a new key appends it: that is an association list
  with distinct keys under \<open>DAList.update\<close>, \<open>DAList.delete\<close> and \<open>DAList.lookup\<close>.
\<close>

type_synonym key = string

abbreviation entries :: "('k, 'v) alist \<Rightarrow> ('k \<times> 'v) list" where
  "entries \<equiv> alist.impl_of"

abbreviation keys :: "('k, 'v) alist \<Rightarrow> 'k list" where
  "keys m \<equiv> map fst (alist.impl_of m)"

text \<open>
  Numbers. Edge weights are integers (the caller computes them with \<open>Math.floor\<close>); the
  distances of the search are integers or \<open>Infinity\<close>. \<open>NInf\<close> and \<open>NaN\<close> are there because
  the sort comparator subtracts distances (\<open>Infinity - Infinity\<close> is \<open>NaN\<close>) and because
  reading a missing \<open>Map\<close> entry as a number gives \<open>NaN\<close>.
\<close>

datatype number = Fin int | PInf | NInf | NaN

fun js_add :: "number \<Rightarrow> number \<Rightarrow> number" where
  "js_add (Fin a) (Fin b) = Fin (a + b)"
| "js_add NaN _ = NaN"
| "js_add _ NaN = NaN"
| "js_add PInf NInf = NaN"
| "js_add NInf PInf = NaN"
| "js_add PInf _ = PInf"
| "js_add _ PInf = PInf"
| "js_add NInf _ = NInf"
| "js_add _ NInf = NInf"

fun js_neg :: "number \<Rightarrow> number" where
  "js_neg (Fin a) = Fin (- a)"
| "js_neg PInf = NInf"
| "js_neg NInf = PInf"
| "js_neg NaN = NaN"

definition js_sub :: "number \<Rightarrow> number \<Rightarrow> number" where
  "js_sub a b = js_add a (js_neg b)"

fun js_lt :: "number \<Rightarrow> number \<Rightarrow> bool" where
  "js_lt (Fin a) (Fin b) = (a < b)"
| "js_lt NaN _ = False"
| "js_lt _ NaN = False"
| "js_lt _ NInf = False"
| "js_lt NInf _ = True"
| "js_lt PInf _ = False"
| "js_lt _ PInf = True"

definition js_gt :: "number \<Rightarrow> number \<Rightarrow> bool" where
  "js_gt a b = js_lt b a"

text \<open>
  \<open>Array.prototype.sort\<close> with a comparator: the sort is stable, an element \<open>a\<close> goes after
  \<open>b\<close> when \<open>compare(a, b) > 0\<close>, and a comparator result \<open>NaN\<close> counts as 0. For a comparator
  that is a total preorder the result is the one stable ordering, which insertion computes.
\<close>

fun insort_cmp :: "('a \<Rightarrow> 'a \<Rightarrow> number) \<Rightarrow> 'a \<Rightarrow> 'a list \<Rightarrow> 'a list" where
  "insort_cmp c a [] = [a]"
| "insort_cmp c a (b # bs) =
     (if js_gt (c a b) (Fin 0) then b # insort_cmp c a bs else a # b # bs)"

definition js_sort :: "('a \<Rightarrow> 'a \<Rightarrow> number) \<Rightarrow> 'a list \<Rightarrow> 'a list" where
  "js_sort c as = foldr (insort_cmp c) as []"

text \<open>
  \<open>NodeMetadata\<close>: an object with the fields \<open>x\<close>, \<open>y\<close> and \<open>isReadyForPickup\<close>. A field is
  optional because \<open>updateNode\<close> takes a \<open>Partial<NodeMetadata>\<close> and may store it as it is;
  \<open>None\<close> is an absent field. The coordinate fields are named \<open>pos_x\<close> and \<open>pos_y\<close> here.
\<close>

record NodeMetadata =
  pos_x :: "int option"
  pos_y :: "int option"
  isReadyForPickup :: "bool option"

record WeightedGraph =
  nodes :: "(key, NodeMetadata) alist"
  edges :: "(key, (key, int) alist) alist"

text \<open>
  How a call ends: it returns a value, it throws, or it never returns. Every method is a
  function from the graph before the call to the outcome and the graph after the call.
\<close>

datatype error = TypeError | SyntaxError | Error string

datatype 'a outcome = Returns 'a | Throws error | Diverges

definition constructor :: WeightedGraph where
  "constructor = \<lparr>nodes = DAList.empty, edges = DAList.empty\<rparr>"

section \<open>Store\<close>

definition nodeExist :: "WeightedGraph \<Rightarrow> key \<Rightarrow> bool" where
  "nodeExist g k = (DAList.lookup (nodes g) k \<noteq> None)"

definition addNode :: "WeightedGraph \<Rightarrow> key \<Rightarrow> NodeMetadata \<Rightarrow> unit outcome \<times> WeightedGraph" where
  "addNode g k metadata =
     (Returns (),
      g\<lparr>nodes := DAList.update k metadata (nodes g),
        edges := DAList.update k DAList.empty (edges g)\<rparr>)"

text \<open>
  \<open>addEdge\<close> guards on the node mapping and then reads the adjacency maps:
  \<open>this.edges.get(start)\<close> is \<open>undefined\<close> for a key without an adjacency map, and calling
  \<open>set\<close> on it throws a \<open>TypeError\<close>, after the first of the two writes when it is the
  second read that fails.
\<close>

definition addEdge :: "WeightedGraph \<Rightarrow> key \<Rightarrow> key \<Rightarrow> int \<Rightarrow> unit outcome \<times> WeightedGraph" where
  "addEdge g start end weight =
     (if \<not> nodeExist g start \<or> \<not> nodeExist g end then (Returns (), g)
      else case DAList.lookup (edges g) start of
        None \<Rightarrow> (Throws TypeError, g)
      | Some m \<Rightarrow>
          let g1 = g\<lparr>edges := DAList.update start (DAList.update end weight m) (edges g)\<rparr>
          in (case DAList.lookup (edges g1) end of
                None \<Rightarrow> (Throws TypeError, g1)
              | Some m' \<Rightarrow>
                  (Returns (),
                   g1\<lparr>edges := DAList.update end (DAList.update start weight m') (edges g1)\<rparr>)))"

definition deleteEdge :: "WeightedGraph \<Rightarrow> key \<Rightarrow> key \<Rightarrow> unit outcome \<times> WeightedGraph" where
  "deleteEdge g start end =
     (if \<not> nodeExist g start \<or> \<not> nodeExist g end then (Returns (), g)
      else case DAList.lookup (edges g) start of
        None \<Rightarrow> (Throws TypeError, g)
      | Some m \<Rightarrow>
          let g1 = g\<lparr>edges := DAList.update start (DAList.delete end m) (edges g)\<rparr>
          in (case DAList.lookup (edges g1) end of
                None \<Rightarrow> (Throws TypeError, g1)
              | Some m' \<Rightarrow>
                  (Returns (),
                   g1\<lparr>edges := DAList.update end (DAList.delete start m') (edges g1)\<rparr>)))"

text \<open>
  \<open>deleteNode\<close>: for every neighbour listed in the key's own adjacency map,
  \<open>this.edges.get(neighbor)?.delete(key)\<close>; then the key's adjacency map and node entry go.
\<close>

definition unlink :: "key \<Rightarrow> (key, (key, int) alist) alist \<Rightarrow> key \<Rightarrow> (key, (key, int) alist) alist" where
  "unlink k es neighbor =
     (case DAList.lookup es neighbor of
        None \<Rightarrow> es
      | Some m \<Rightarrow> DAList.update neighbor (DAList.delete k m) es)"

definition deleteNode :: "WeightedGraph \<Rightarrow> key \<Rightarrow> unit outcome \<times> WeightedGraph" where
  "deleteNode g k =
     (if \<not> nodeExist g k then (Returns (), g)
      else
        let es = (case DAList.lookup (edges g) k of
                    None \<Rightarrow> edges g
                  | Some adj \<Rightarrow> DAList.delete k (foldl (unlink k) (edges g) (keys adj)))
        in (Returns (), \<lparr>nodes = DAList.delete k (nodes g), edges = es\<rparr>))"

text \<open>
  \<open>updateNode\<close>: \<open>{ ...old, ...metadata }\<close>, a field of \<open>metadata\<close> wins over the old one.
  For a key that is not a node, \<open>old\<close> is \<open>undefined\<close> and the key becomes a node with the
  given fields; no adjacency map is made for it.
\<close>

definition spread :: "NodeMetadata option \<Rightarrow> NodeMetadata \<Rightarrow> NodeMetadata" where
  "spread old metadata =
     (case old of
        None \<Rightarrow> metadata
      | Some m \<Rightarrow>
          \<lparr>pos_x = (case pos_x metadata of None \<Rightarrow> pos_x m | Some v \<Rightarrow> Some v),
           pos_y = (case pos_y metadata of None \<Rightarrow> pos_y m | Some v \<Rightarrow> Some v),
           isReadyForPickup =
             (case isReadyForPickup metadata of None \<Rightarrow> isReadyForPickup m | Some v \<Rightarrow> Some v)\<rparr>)"

definition updateNode :: "WeightedGraph \<Rightarrow> key \<Rightarrow> NodeMetadata \<Rightarrow> unit outcome \<times> WeightedGraph" where
  "updateNode g k metadata =
     (Returns (),
      g\<lparr>nodes := DAList.update k (spread (DAList.lookup (nodes g) k) metadata) (nodes g)\<rparr>)"

section \<open>Pathfinder\<close>

text \<open>
  The locals of the search: \<open>unvisited\<close> (a \<open>Set\<close>, iterated in insertion order),
  \<open>distances\<close> and \<open>previous\<close>.
\<close>

record search =
  unvisited :: "key list"
  distances :: "(key, number) alist"
  previous :: "(key, key) alist"

definition distance :: "(key, number) alist \<Rightarrow> key \<Rightarrow> number" where
  "distance ds k = (case DAList.lookup ds k of None \<Rightarrow> NaN | Some d \<Rightarrow> d)"

text \<open>
  \<open>Array.from(unvisited).reduce((minNode, node) => distances.get(node) <
  distances.get(minNode) ? node : minNode)\<close>: the first element starts as \<open>minNode\<close>.
\<close>

definition minNode :: "(key, number) alist \<Rightarrow> key \<Rightarrow> key list \<Rightarrow> key" where
  "minNode ds u us =
     foldl (\<lambda>m node. if js_lt (distance ds node) (distance ds m) then node else m) u us"

text \<open>
  One call of the \<open>forEach\<close> callback. \<open>findCheapestPath\<close> records the predecessor,
  \<open>findClosestNReady\<close> has no \<open>previous\<close> map: \<open>track\<close> tells the two apart.
\<close>

definition relax :: "bool \<Rightarrow> key \<Rightarrow> search \<Rightarrow> key \<times> int \<Rightarrow> search" where
  "relax track curNode st e =
     (case e of (neighbor, weight) \<Rightarrow>
        if neighbor \<in> set (unvisited st) then
          let newDistance = js_add (distance (distances st) curNode) (Fin weight)
          in if js_gt (distance (distances st) neighbor) newDistance
             then st\<lparr>distances := DAList.update neighbor newDistance (distances st),
                     previous := (if track then DAList.update neighbor curNode (previous st)
                                  else previous st)\<rparr>
             else st
        else st)"

lemma unvisited_relax: "unvisited (relax track c st e) = unvisited st"
  by (cases e) (simp add: relax_def Let_def)

lemma unvisited_foldl_relax: "unvisited (foldl (relax track c) st es) = unvisited st"
  by (induction es arbitrary: st) (simp_all add: unvisited_relax)

lemma minNode_mem: "minNode ds u us \<in> set (u # us)"
  unfolding minNode_def
  by (induction us arbitrary: u) (simp, force)

text \<open>
  The \<open>while (unvisited.size > 0)\<close> loop of both queries. \<open>target\<close> is \<open>Some end\<close> for
  \<open>findCheapestPath\<close>, which breaks when the selected node is \<open>end\<close>, and \<open>None\<close> for
  \<open>findClosestNReady\<close>, which has no break. \<open>this.edges.get(curNode).forEach\<close> throws a
  \<open>TypeError\<close> when the selected node has no adjacency map.
\<close>

function dijkstra :: "WeightedGraph \<Rightarrow> bool \<Rightarrow> key option \<Rightarrow> search \<Rightarrow> error + search" where
  "dijkstra g track target st =
     (case unvisited st of
        [] \<Rightarrow> Inr st
      | u # us \<Rightarrow>
          let curNode = minNode (distances st) u us
          in if target = Some curNode then Inr st
             else (case DAList.lookup (edges g) curNode of
                     None \<Rightarrow> Inl TypeError
                   | Some adj \<Rightarrow>
                       let st' = foldl (relax track curNode) st (entries adj)
                       in dijkstra g track target
                            (st'\<lparr>unvisited := removeAll curNode (unvisited st')\<rparr>)))"
  by pat_completeness auto
termination
proof (relation "measure (\<lambda>(g, track, target, st). length (unvisited st))")
  show "wf (measure (\<lambda>(g, track, target, st). length (unvisited st)))"
    by simp
next
  fix g :: WeightedGraph and track :: bool and target :: "key option" and st :: search
    and u us c adj st'
  assume u: "unvisited st = u # us" and c: "c = minNode (distances st) u us"
    and st': "st' = foldl (relax track c) st (entries adj)"
  have "c \<in> set (unvisited st)"
    using minNode_mem [of "distances st" u us] by (simp add: u c)
  then have "length (removeAll c (unvisited st)) < length (unvisited st)"
    by (simp add: length_removeAll_less)
  then show "((g, track, target, st'\<lparr>unvisited := removeAll c (unvisited st')\<rparr>),
              (g, track, target, st)) \<in> measure (\<lambda>(g, track, target, st). length (unvisited st))"
    by (simp add: st' unvisited_foldl_relax)
qed

declare dijkstra.simps [simp del]

text \<open>
  \<open>new Set(this.nodes.keys())\<close>, \<open>new Map([...this.nodes].map(([k]) => [k, Infinity]))\<close>
  followed by \<open>distances.set(start, 0)\<close>, and \<open>new Map()\<close>.
\<close>

definition init_search :: "WeightedGraph \<Rightarrow> key \<Rightarrow> search" where
  "init_search g start =
     \<lparr>unvisited = keys (nodes g),
      distances = DAList.update start (Fin 0)
                    (foldl (\<lambda>m k. DAList.update k PInf m) DAList.empty (keys (nodes g))),
      previous = DAList.empty\<rparr>"

text \<open>
  \<open>for (let at = end; at != null; at = previous.get(at)) path.push(at)\<close>. Nothing in the
  loop itself bounds it: on a \<open>previous\<close> map with a cycle it never ends, which is the
  value \<open>None\<close> here. The loop variable \<open>at\<close> is \<open>at'\<close>.
\<close>

partial_function (option) walk :: "(key, key) alist \<Rightarrow> key option \<Rightarrow> key list \<Rightarrow> key list option" where
  "walk prev at' path =
     (case at' of
        None \<Rightarrow> Some path
      | Some a \<Rightarrow> walk prev (DAList.lookup prev a) (path @ [a]))"

definition findCheapestPath :: "WeightedGraph \<Rightarrow> key \<Rightarrow> key \<Rightarrow> key list option outcome \<times> WeightedGraph" where
  "findCheapestPath g start end =
     (if \<not> nodeExist g start \<or> \<not> nodeExist g end then (Returns None, g)
      else case dijkstra g True (Some end) (init_search g start) of
        Inl e \<Rightarrow> (Throws e, g)
      | Inr st \<Rightarrow>
          (case walk (previous st) (Some end) [] of
             None \<Rightarrow> (Diverges, g)
           | Some path \<Rightarrow> (Returns (Some (rev path)), g)))"

text \<open>
  \<open>findClosestNReady(start, n)\<close>; \<open>n\<close> is a count of nodes, a natural number, and
  \<open>slice(0, n)\<close> is \<open>take n\<close>. The filter reads \<open>metadata.isReadyForPickup\<close> for its truth
  value: an absent field is falsy.
\<close>

definition ready :: "key \<times> NodeMetadata \<Rightarrow> bool" where
  "ready e = (isReadyForPickup (snd e) = Some True)"

definition byDistance :: "(key, number) alist \<Rightarrow> key \<times> NodeMetadata \<Rightarrow> key \<times> NodeMetadata \<Rightarrow> number" where
  "byDistance ds a b = js_sub (distance ds (fst a)) (distance ds (fst b))"

definition findClosestNReady :: "WeightedGraph \<Rightarrow> key \<Rightarrow> nat \<Rightarrow> key list option outcome \<times> WeightedGraph" where
  "findClosestNReady g start n =
     (if \<not> nodeExist g start then (Returns None, g)
      else case dijkstra g False None (init_search g start) of
        Inl e \<Rightarrow> (Throws e, g)
      | Inr st \<Rightarrow>
          let readyNodes = js_sort (byDistance (distances st)) (filter ready (entries (nodes g)))
          in (Returns (Some (map fst (take n readyNodes))), g))"

section \<open>Codec\<close>

text \<open>
  \<open>JSON.stringify\<close> and \<open>JSON.parse\<close> belong to the platform. A text is taken here by what
  \<open>JSON.parse\<close> makes of it: a \<open>SyntaxError\<close>, the value \<open>null\<close>, or any other value, given
  by its properties \<open>nodes\<close> and \<open>edges\<close> (a primitive has neither). \<open>JSON.stringify\<close> of a
  value is the text that parses to that value again, which holds for strings, integers,
  booleans, arrays and plain objects. An array element is an entry of the persisted
  shape, or a value that cannot be destructured as \<open>[key, value]\<close>.
\<close>

datatype 'a property = Undefined | NotArray | Array "'a list"

datatype node_entry = NodeEntry key NodeMetadata | NodeNotIterable

datatype edge_entry = EdgeEntry key "(key \<times> int) list" | EdgeNotIterable

datatype json_text = Unparsable | ParsesNull | Parses "node_entry property" "edge_entry property"

definition toJSON :: "WeightedGraph \<Rightarrow> json_text outcome \<times> WeightedGraph" where
  "toJSON g =
     (Returns (Parses (Array (map (\<lambda>(k, metadata). NodeEntry k metadata) (entries (nodes g))))
                      (Array (map (\<lambda>(k, v). EdgeEntry k (entries v)) (entries (edges g))))),
      g)"

text \<open>\<open>new Map(iterable)\<close>: the entries are \<open>set\<close> one after the other.\<close>

definition new_Map :: "('k \<times> 'v) list \<Rightarrow> ('k, 'v) alist" where
  "new_Map es = foldl (\<lambda>m e. DAList.update (fst e) (snd e) m) DAList.empty es"

text \<open>
  The two \<open>forEach\<close> loops of the rebuild; the result is the error thrown, if any, and the
  graph at that moment.
\<close>

fun load_nodes :: "WeightedGraph \<Rightarrow> node_entry list \<Rightarrow> error option \<times> WeightedGraph" where
  "load_nodes g [] = (None, g)"
| "load_nodes g (NodeEntry k metadata # rest) = load_nodes (snd (addNode g k metadata)) rest"
| "load_nodes g (NodeNotIterable # rest) = (Some TypeError, g)"

fun load_edges :: "WeightedGraph \<Rightarrow> edge_entry list \<Rightarrow> error option \<times> WeightedGraph" where
  "load_edges g [] = (None, g)"
| "load_edges g (EdgeEntry k es # rest) =
     load_edges (g\<lparr>edges := DAList.update k (new_Map es) (edges g)\<rparr>) rest"
| "load_edges g (EdgeNotIterable # rest) = (Some TypeError, g)"

text \<open>The body of the \<open>try\<close> block: the error it throws, if any, and the graph then.\<close>

definition fromJSON_try :: "WeightedGraph \<Rightarrow> json_text \<Rightarrow> error option \<times> WeightedGraph" where
  "fromJSON_try g str =
     (case str of
        Unparsable \<Rightarrow> (Some SyntaxError, g)
      | ParsesNull \<Rightarrow> (Some TypeError, g)
      | Parses data_nodes data_edges \<Rightarrow>
          (case data_nodes of
             Array ns \<Rightarrow>
               (case data_edges of
                  Array es \<Rightarrow>
                    (case load_nodes \<lparr>nodes = DAList.empty, edges = DAList.empty\<rparr> ns of
                       (Some e, g') \<Rightarrow> (Some e, g')
                     | (None, g') \<Rightarrow> load_edges g' es)
                | _ \<Rightarrow> (Some (Error ''invalid edges data''), g))
           | _ \<Rightarrow> (Some (Error ''invalid nodes data''), g)))"

text \<open>
  \<open>fromJSON\<close>: the \<open>catch\<close> clause passes the error to \<open>console.error\<close> and the method
  returns. The third component is what was written to the console.
\<close>

definition fromJSON :: "WeightedGraph \<Rightarrow> json_text \<Rightarrow> unit outcome \<times> WeightedGraph \<times> error list" where
  "fromJSON g str =
     (case fromJSON_try g str of
        (None, g') \<Rightarrow> (Returns (), g', [])
      | (Some e, g') \<Rightarrow> (Returns (), g', [e]))"

section \<open>Properties of a graph\<close>

definition weight_of :: "WeightedGraph \<Rightarrow> key \<Rightarrow> key \<Rightarrow> int option" where
  "weight_of g a b = (case DAList.lookup (edges g) a of None \<Rightarrow> None | Some adj \<Rightarrow> DAList.lookup adj b)"

text \<open>Symmetric adjacency: every adjacency entry has its mirror entry with the same weight.\<close>

definition symmetric :: "WeightedGraph \<Rightarrow> bool" where
  "symmetric g =
     list_all (\<lambda>(a, adj). list_all (\<lambda>(b, w). weight_of g b a = Some w) (entries adj))
       (entries (edges g))"

text \<open>Every key that appears in an adjacency map, as owner or as neighbour, is a node.\<close>

definition no_dangling :: "WeightedGraph \<Rightarrow> bool" where
  "no_dangling g =
     list_all (\<lambda>(a, adj). nodeExist g a \<and> list_all (\<lambda>(b, w). nodeExist g b) (entries adj))
       (entries (edges g))"









section \<open>The graphs of the examples\<close>

definition meta :: "int \<Rightarrow> int \<Rightarrow> bool \<Rightarrow> NodeMetadata" where
  "meta a b r = \<lparr>pos_x = Some a, pos_y = Some b, isReadyForPickup = Some r\<rparr>"

definition then_do :: "unit outcome \<times> WeightedGraph \<Rightarrow> (WeightedGraph \<Rightarrow> unit outcome \<times> WeightedGraph) \<Rightarrow> unit outcome \<times> WeightedGraph" where
  "then_do r f = (case r of (Returns _, g) \<Rightarrow> f g | _ \<Rightarrow> r)"

text \<open>
  The scenario of the specification: nodes A, B, C and the edges A-B 3, B-C 4, A-C 10.
\<close>

definition abc_nodes :: "unit outcome \<times> WeightedGraph" where
  "abc_nodes =
     then_do (then_do (addNode constructor ''A'' (meta 0 0 False))
       (\<lambda>g. addNode g ''B'' (meta 1 0 True)))
       (\<lambda>g. addNode g ''C'' (meta 2 0 True))"

definition abc :: WeightedGraph where
  "abc = snd (then_do (then_do (then_do abc_nodes
       (\<lambda>g. addEdge g ''A'' ''B'' 3))
       (\<lambda>g. addEdge g ''B'' ''C'' 4))
       (\<lambda>g. addEdge g ''A'' ''C'' 10))"

text \<open>
  A graph with a node that has no adjacency map: \<open>addNode("A", ...)\<close> and then
  \<open>updateNode("B", { isReadyForPickup: true })\<close> on the key B, which is not a node yet.
\<close>

definition half_built :: WeightedGraph where
  "half_built =
     snd (then_do (addNode constructor ''A'' (meta 0 0 False))
            (\<lambda>g. updateNode g ''B'' \<lparr>pos_x = None, pos_y = None, isReadyForPickup = Some True\<rparr>))"

text \<open>
  The texts that \<open>fromJSON\<close> refuses before it clears the graph: not JSON, or a value whose
  \<open>nodes\<close> or \<open>edges\<close> property is missing or not an array.
\<close>

definition is_Array :: "'a property \<Rightarrow> bool" where
  "is_Array p = (case p of Array _ \<Rightarrow> True | _ \<Rightarrow> False)"

definition rejected :: "json_text \<Rightarrow> bool" where
  "rejected str =
     (case str of
        Unparsable \<Rightarrow> True
      | ParsesNull \<Rightarrow> True
      | Parses data_nodes data_edges \<Rightarrow> \<not> (is_Array data_nodes \<and> is_Array data_edges))"



text \<open>The scenario after a second \<open>addNode("A", ...)\<close>.\<close>

definition readded :: WeightedGraph where
  "readded = snd (addNode abc ''A'' (meta 0 0 False))"

section \<open>Predicates of the proofs\<close>

text \<open>
  \<open>at_most a b\<close> is \<open>a <= b\<close> read off JavaScript's \<open><\<close>; a proper distance is \<open>Infinity\<close> or
  a non-negative integer.
\<close>

definition at_most :: "number \<Rightarrow> number \<Rightarrow> bool" where
  "at_most a b = (\<not> js_lt b a)"

definition proper :: "number \<Rightarrow> bool" where
  "proper d = (d = PInf \<or> (\<exists>c\<ge>0. d = Fin c))"






text \<open>
  The graph that \<open>fromJSON\<close> builds from the text of \<open>toJSON\<close>: the nodes in their order,
  an empty adjacency map for every node from \<open>addNode\<close>, then every adjacency map of the
  text set under its key.
\<close>

definition reloaded :: "WeightedGraph \<Rightarrow> WeightedGraph" where
  "reloaded g =
     \<lparr>nodes = nodes g,
      edges = foldl (\<lambda>m e. DAList.update (fst e) (snd e) m)
                (foldl (\<lambda>m e. DAList.update (fst e) DAList.empty m) DAList.empty (entries (nodes g)))
                (entries (edges g))\<rparr>"

section \<open>Association lists\<close>

lemmas alist_rep = DAList.update.rep_eq DAList.empty.rep_eq DAList.lookup.rep_eq
  DAList.delete.rep_eq

lemmas alist_eval = alist_rep alist_eq_iff

lemma keys_update_present:
  "DAList.lookup m k \<noteq> None \<Longrightarrow> keys (DAList.update k v m) = keys m"
  by (simp add: DAList.update.rep_eq DAList.lookup.rep_eq update_keys map_of_eq_None_iff)

lemma abc_eq:
  "abc = \<lparr>nodes = new_Map [(''A'', meta 0 0 False), (''B'', meta 1 0 True), (''C'', meta 2 0 True)],
          edges = new_Map [(''A'', new_Map [(''B'', 3), (''C'', 10)]),
                           (''B'', new_Map [(''A'', 3), (''C'', 4)]),
                           (''C'', new_Map [(''B'', 4), (''A'', 10)])]\<rparr>"
  by (simp add: abc_def abc_nodes_def then_do_def addNode_def addEdge_def nodeExist_def
      constructor_def new_Map_def Let_def alist_eval)

section \<open>Store: addNode on an existing key\<close>

text \<open>
  Claim C9. \<open>addNode(key, metadata)\<close> on a key that is a node already returns, stores the
  given metadata under the key, leaves the key at its place in the node order, and makes
  the key's own adjacency map empty. Every other key keeps its metadata and its whole
  adjacency map, so an entry for \<open>key\<close> in another node's adjacency map stays where it is.
\<close>

theorem addNode_existing_key:
  assumes "nodeExist g k"
  shows "fst (addNode g k metadata) = Returns ()
    \<and> DAList.lookup (nodes (snd (addNode g k metadata))) k = Some metadata
    \<and> DAList.lookup (edges (snd (addNode g k metadata))) k = Some DAList.empty
    \<and> keys (nodes (snd (addNode g k metadata))) = keys (nodes g)
    \<and> (\<forall>j. j \<noteq> k \<longrightarrow>
          DAList.lookup (nodes (snd (addNode g k metadata))) j = DAList.lookup (nodes g) j
        \<and> DAList.lookup (edges (snd (addNode g k metadata))) j = DAList.lookup (edges g) j
        \<and> weight_of (snd (addNode g k metadata)) j k = weight_of g j k)"
  using assms by (simp add: addNode_def nodeExist_def keys_update_present weight_of_def)

theorem addNode_existing_key_witness:
  "nodeExist abc ''A''
   \<and> weight_of abc ''A'' ''B'' = Some 3
   \<and> weight_of (snd (addNode abc ''A'' (meta 5 5 True))) ''A'' ''B'' = None
   \<and> weight_of (snd (addNode abc ''A'' (meta 5 5 True))) ''B'' ''A'' = Some 3
   \<and> DAList.lookup (nodes (snd (addNode abc ''A'' (meta 5 5 True)))) ''A'' = Some (meta 5 5 True)"
proof -
  have ex: "nodeExist abc ''A''"
    by (simp add: abc_eq nodeExist_def new_Map_def)
  have w: "weight_of abc ''B'' ''A'' = Some 3" "weight_of abc ''A'' ''B'' = Some 3"
    by (simp_all add: abc_eq weight_of_def new_Map_def)
  from addNode_existing_key [OF ex, of "meta 5 5 True"] ex w show ?thesis
    by (simp add: weight_of_def)
qed

section \<open>Store: addEdge on a node without an adjacency map\<close>

text \<open>
  Claim C7, at the graph \<open>half_built\<close>. Both keys are nodes, so \<open>addEdge("A", "B", 1)\<close>
  passes its guard; it writes the entry for B into the adjacency map of A and then throws
  a \<open>TypeError\<close>, because B has no adjacency map. The weight stands in one direction only.
\<close>

theorem addEdge_without_adjacency_map:
  "nodeExist half_built ''A'' \<and> nodeExist half_built ''B''
   \<and> fst (addEdge half_built ''A'' ''B'' 1) = Throws TypeError
   \<and> weight_of (snd (addEdge half_built ''A'' ''B'' 1)) ''A'' ''B'' = Some 1
   \<and> weight_of (snd (addEdge half_built ''A'' ''B'' 1)) ''B'' ''A'' = None"
  by (simp add: half_built_def then_do_def addNode_def updateNode_def addEdge_def nodeExist_def
      constructor_def weight_of_def Let_def spread_def)

theorem addEdge_without_adjacency_map_witness:
  "fst (addEdge half_built ''A'' ''B'' 1) \<noteq> Returns ()"
  using addEdge_without_adjacency_map by simp

section \<open>Codec: a refused text\<close>

text \<open>
  Claim C3, as the code has it. For a text that is not JSON, or whose \<open>nodes\<close> or \<open>edges\<close>
  property is missing or not an array, \<open>fromJSON\<close> leaves the graph as it was, writes the
  one error to the console and returns: the caller gets no error.
\<close>

theorem fromJSON_rejected:
  assumes "rejected str"
  shows "\<exists>e. fromJSON g str = (Returns (), g, [e])"
  using assms
  by (auto simp: rejected_def fromJSON_def fromJSON_try_def is_Array_def
      split: json_text.splits property.splits)

theorem fromJSON_rejected_witness:
  "rejected (Parses (Array []) Undefined)
   \<and> (\<exists>e. fromJSON abc (Parses (Array []) Undefined) = (Returns (), abc, [e]))"
  using fromJSON_rejected [of "Parses (Array []) Undefined" abc]
  by (simp add: rejected_def is_Array_def)

text \<open>
  On a text that is not JSON the call returns as a successful call does; nothing is thrown.
\<close>

theorem fromJSON_unparsable_returns:
  "fromJSON abc Unparsable = (Returns (), abc, [SyntaxError])"
  by (simp add: fromJSON_def fromJSON_try_def)

section \<open>Pathfinder: the queries leave the graph alone\<close>

text \<open>
  Claim C10. Whatever \<open>findCheapestPath\<close> and \<open>findClosestNReady\<close> do (return a value,
  return \<open>undefined\<close>, throw), the graph after the call is the graph before it, with both
  mappings in the same order. The queries work on copies: \<open>new Set(this.nodes.keys())\<close>,
  \<open>[...this.nodes]\<close> and \<open>Array.from(this.nodes)\<close>, and it is the copy that \<open>sort\<close> reorders.
\<close>

theorem queries_read_only:
  "snd (findCheapestPath g start end) = g \<and> snd (findClosestNReady g start n) = g"
  by (simp add: findCheapestPath_def findClosestNReady_def Let_def split: sum.splits option.splits)

theorem queries_read_only_witness:
  "snd (findCheapestPath abc ''A'' ''C'') = abc \<and> snd (findClosestNReady abc ''A'' 1) = abc"
  using queries_read_only [of abc "''A''" "''C''" 1] by simp

section \<open>Adjacency as a relation\<close>

lemma lookup_mem: "DAList.lookup m k = Some v \<longleftrightarrow> (k, v) \<in> set (entries m)"
  by (simp add: DAList.lookup.rep_eq)

lemma lookup_None_keys: "DAList.lookup m k = None \<longleftrightarrow> k \<notin> set (keys m)"
  by (simp add: DAList.lookup.rep_eq map_of_eq_None_iff)

lemma weight_of_mem:
  "weight_of g a b = Some w \<longleftrightarrow>
     (\<exists>adj. (a, adj) \<in> set (entries (edges g)) \<and> (b, w) \<in> set (entries adj))"
proof -
  have "weight_of g a b = Some w \<longleftrightarrow>
      (\<exists>adj. DAList.lookup (edges g) a = Some adj \<and> DAList.lookup adj b = Some w)"
    by (simp add: weight_of_def split: option.splits)
  then show ?thesis by (simp only: lookup_mem)
qed

lemma symmetric_imp: "symmetric g \<longleftrightarrow> (\<forall>a b w. weight_of g a b = Some w \<longrightarrow> weight_of g b a = Some w)"
proof
  assume s: "symmetric g"
  show "\<forall>a b w. weight_of g a b = Some w \<longrightarrow> weight_of g b a = Some w"
  proof (intro allI impI)
    fix a b w assume "weight_of g a b = Some w"
    then obtain adj where "(a, adj) \<in> set (entries (edges g))" "(b, w) \<in> set (entries adj)"
      unfolding weight_of_mem by blast
    with s show "weight_of g b a = Some w"
      unfolding symmetric_def list_all_iff by fast
  qed
next
  assume r: "\<forall>a b w. weight_of g a b = Some w \<longrightarrow> weight_of g b a = Some w"
  show "symmetric g"
    unfolding symmetric_def list_all_iff
  proof (intro ballI, clarify)
    fix a adj b w
    assume "(a, adj) \<in> set (entries (edges g))" "(b, w) \<in> set (entries adj)"
    then have "weight_of g a b = Some w" unfolding weight_of_mem by blast
    with r show "weight_of g b a = Some w" by blast
  qed
qed


lemma symmetric_iff: "symmetric g \<longleftrightarrow> (\<forall>a b. weight_of g a b = weight_of g b a)"
proof
  assume "symmetric g"
  then have s: "\<And>a b w. weight_of g a b = Some w \<Longrightarrow> weight_of g b a = Some w"
    unfolding symmetric_imp by blast
  show "\<forall>a b. weight_of g a b = weight_of g b a"
  proof (intro allI)
    fix a b
    show "weight_of g a b = weight_of g b a"
    proof (cases "weight_of g a b")
      case None
      show ?thesis
      proof (cases "weight_of g b a")
        case (Some w)
        from s [OF Some] None show ?thesis by simp
      qed (simp add: None)
    next
      case (Some w)
      from s [OF Some] Some show ?thesis by simp
    qed
  qed
next
  assume "\<forall>a b. weight_of g a b = weight_of g b a"
  then show "symmetric g" unfolding symmetric_imp by metis
qed


lemma weight_of_update:
  "weight_of (g\<lparr>edges := DAList.update k m es\<rparr>) a b =
     (if a = k then DAList.lookup m b
      else case DAList.lookup es a of None \<Rightarrow> None | Some adj \<Rightarrow> DAList.lookup adj b)"
  by (simp add: weight_of_def DAList.lookup_update)














lemma deleteEdge_nodes: "deleteEdge g s e = (r, g') \<Longrightarrow> nodes g' = nodes g"
  by (auto simp: deleteEdge_def Let_def split: if_splits option.splits)

lemma symmetric_abc: "symmetric abc"
  by (simp add: symmetric_def abc_eq new_Map_def weight_of_def alist_rep)


section \<open>Store: symmetry under addEdge and deleteEdge\<close>



section \<open>Store: deleteNode\<close>

lemma delete_delete: "DAList.delete k (DAList.delete k m) = DAList.delete k m"
  by (simp add: alist_eq_iff DAList.delete.rep_eq delete_idem)

lemma lookup_unlink:
  "DAList.lookup (unlink k es n) u =
     (case DAList.lookup es u of
        None \<Rightarrow> None
      | Some m \<Rightarrow> Some (if u = n then DAList.delete k m else m))"
  by (cases "DAList.lookup es n") (auto simp: unlink_def DAList.lookup_update split: option.splits)

lemma lookup_foldl_unlink:
  "DAList.lookup (foldl (unlink k) es ns) u =
     (case DAList.lookup es u of
        None \<Rightarrow> None
      | Some m \<Rightarrow> Some (if u \<in> set ns then DAList.delete k m else m))"
proof (induction ns arbitrary: es)
  case Nil
  show ?case by (simp split: option.splits)
next
  case (Cons n ns)
  show ?case
    by (simp add: Cons.IH lookup_unlink delete_delete split: option.splits)
qed

lemma no_dangling_weight:
  assumes "no_dangling g" "weight_of g a b = Some w"
  shows "nodeExist g a \<and> nodeExist g b"
proof -
  from assms(2) obtain adj where "(a, adj) \<in> set (entries (edges g))" "(b, w) \<in> set (entries adj)"
    unfolding weight_of_mem by blast
  with assms(1) show ?thesis
    unfolding no_dangling_def list_all_iff by fast
qed

text \<open>
  Claim C5, as the code has it. On a graph with symmetric adjacency in which every key of
  an adjacency map is a node, \<open>deleteNode(K)\<close> returns, K is no node afterwards and no
  adjacency map has an entry for K. (\<open>deleteNode\<close> visits the neighbours listed in K's own
  adjacency map only.)
\<close>

theorem deleteNode_cascade:
  assumes s: "symmetric g" and d: "no_dangling g"
  shows "fst (deleteNode g k) = Returns ()
    \<and> \<not> nodeExist (snd (deleteNode g k)) k
    \<and> (\<forall>u. weight_of (snd (deleteNode g k)) u k = None)"
proof (cases "nodeExist g k")
  case False
  have "weight_of g u k = None" for u
  proof (cases "weight_of g u k")
    case (Some w)
    from no_dangling_weight [OF d Some] False show ?thesis by simp
  qed simp
  with False show ?thesis by (simp add: deleteNode_def)
next
  case True
  show ?thesis
  proof (cases "DAList.lookup (edges g) k")
    case None
    have "weight_of g u k = None" for u
    proof -
      from s have "weight_of g u k = weight_of g k u" by (simp add: symmetric_iff)
      with None show ?thesis by (simp add: weight_of_def)
    qed
    with True None show ?thesis
      by (simp add: deleteNode_def nodeExist_def weight_of_def)
  next
    case (Some adj)
    have "weight_of (snd (deleteNode g k)) u k = None" for u
    proof (cases "u = k")
      case True
      with \<open>nodeExist g k\<close> Some show ?thesis
        by (simp add: deleteNode_def weight_of_def)
    next
      case False
      show ?thesis
      proof (cases "DAList.lookup (edges g) u")
        case None
        with \<open>nodeExist g k\<close> Some False show ?thesis
          by (simp add: deleteNode_def weight_of_def lookup_foldl_unlink)
      next
        case m: (Some m)
        show ?thesis
        proof (cases "u \<in> set (keys adj)")
          case True
          with \<open>nodeExist g k\<close> Some False m show ?thesis
            by (simp add: deleteNode_def weight_of_def lookup_foldl_unlink)
        next
          case notin: False
          from s have "weight_of g u k = weight_of g k u" by (simp add: symmetric_iff)
          with Some m notin have "DAList.lookup m k = None"
            by (simp add: weight_of_def lookup_None_keys)
          with \<open>nodeExist g k\<close> Some False m notin show ?thesis
            by (simp add: deleteNode_def weight_of_def lookup_foldl_unlink)
        qed
      qed
    qed
    with True show ?thesis
      by (simp add: deleteNode_def nodeExist_def)
  qed
qed

lemma no_dangling_abc: "no_dangling abc"
  by (simp add: no_dangling_def abc_eq new_Map_def nodeExist_def alist_rep)

theorem deleteNode_cascade_witness:
  "symmetric abc \<and> no_dangling abc
   \<and> fst (deleteNode abc ''B'') = Returns ()
   \<and> \<not> nodeExist (snd (deleteNode abc ''B'')) ''B''
   \<and> weight_of (snd (deleteNode abc ''B'')) ''A'' ''B'' = None
   \<and> weight_of (snd (deleteNode abc ''B'')) ''A'' ''C'' = Some 10"
proof -
  have "weight_of (snd (deleteNode abc ''B'')) ''A'' ''C'' = Some 10"
    by (simp add: deleteNode_def abc_eq nodeExist_def new_Map_def weight_of_def unlink_def alist_eval)
  with deleteNode_cascade [OF symmetric_abc no_dangling_abc, of "''B''"]
    symmetric_abc no_dangling_abc show ?thesis by simp
qed

text \<open>
  Without symmetry the claim fails. In \<open>readded\<close> the node A of the scenario was added a
  second time, which emptied its adjacency map and left the entries for A in the maps of B
  and C. After \<open>deleteNode("A")\<close> the adjacency map of B still has its entry for A.
\<close>

theorem deleteNode_leaves_entry:
  "nodeExist readded ''A'' \<and> nodeExist (snd (deleteNode readded ''A'')) ''B''
   \<and> \<not> nodeExist (snd (deleteNode readded ''A'')) ''A''
   \<and> weight_of (snd (deleteNode readded ''A'')) ''B'' ''A'' = Some 3"
  by (simp add: readded_def addNode_def deleteNode_def abc_eq nodeExist_def new_Map_def
      weight_of_def unlink_def alist_eval)

section \<open>Codec: the round trip\<close>

lemma alist_update_append: "k \<notin> fst ` set ys \<Longrightarrow> AList.update k v ys = ys @ [(k, v)]"
  by (induction ys) auto

lemma foldl_update_rebuild:
  "distinct (map fst xs) \<Longrightarrow> fst ` set ys \<inter> fst ` set xs = {} \<Longrightarrow>
     foldl (\<lambda>l e. AList.update (fst e) (snd e) l) ys xs = ys @ xs"
proof (induction xs arbitrary: ys)
  case Nil
  show ?case by simp
next
  case (Cons x xs)
  from Cons.prems have k: "fst x \<notin> fst ` set ys" by auto
  have "foldl (\<lambda>l e. AList.update (fst e) (snd e) l) (ys @ [x]) xs = (ys @ [x]) @ xs"
    using Cons.prems by (intro Cons.IH) auto
  then show ?case using k by (simp add: alist_update_append)
qed

lemma entries_foldl_update:
  "entries (foldl (\<lambda>m e. DAList.update (fst e) (snd e) m) m0 xs) =
     foldl (\<lambda>l e. AList.update (fst e) (snd e) l) (entries m0) xs"
  by (induction xs arbitrary: m0) (simp_all add: DAList.update.rep_eq)

lemma foldl_update_entries:
  "foldl (\<lambda>m e. DAList.update (fst e) (snd e) m) DAList.empty (entries a) = a"
  by (simp add: alist_eq_iff entries_foldl_update DAList.empty.rep_eq foldl_update_rebuild)

lemma new_Map_entries: "new_Map (entries a) = a"
  by (simp add: new_Map_def foldl_update_entries)

lemma lookup_foldl_update:
  "distinct (map fst xs) \<Longrightarrow>
     DAList.lookup (foldl (\<lambda>m e. DAList.update (fst e) (f e) m) m0 xs) k =
       (case map_of xs k of None \<Rightarrow> DAList.lookup m0 k | Some v \<Rightarrow> Some (f (k, v)))"
proof (induction xs arbitrary: m0)
  case Nil
  show ?case by simp
next
  case (Cons x xs)
  obtain k0 v0 where x: "x = (k0, v0)" by (cases x)
  from Cons.prems x have "map_of xs k0 = None"
    by (simp add: map_of_eq_None_iff)
  with Cons.prems x show ?case
    by (simp add: Cons.IH DAList.lookup_update split: option.splits)
qed

lemma load_nodes_entries:
  "load_nodes g (map (\<lambda>(k, m). NodeEntry k m) xs) =
     (None, \<lparr>nodes = foldl (\<lambda>m e. DAList.update (fst e) (snd e) m) (nodes g) xs,
             edges = foldl (\<lambda>m e. DAList.update (fst e) DAList.empty m) (edges g) xs\<rparr>)"
proof (induction xs arbitrary: g)
  case Nil
  show ?case by simp
next
  case (Cons x xs)
  obtain k m where x: "x = (k, m)" by (cases x)
  show ?case by (simp add: x Cons.IH addNode_def)
qed

lemma load_edges_entries:
  "load_edges g (map (\<lambda>(k, v). EdgeEntry k (entries v)) xs) =
     (None, \<lparr>nodes = nodes g,
             edges = foldl (\<lambda>m e. DAList.update (fst e) (snd e) m) (edges g) xs\<rparr>)"
proof (induction xs arbitrary: g)
  case Nil
  show ?case by simp
next
  case (Cons x xs)
  obtain k v where x: "x = (k, v)" by (cases x)
  show ?case by (simp add: x Cons.IH new_Map_entries)
qed

lemma fromJSON_toJSON:
  "fromJSON g0 (Parses (Array (map (\<lambda>(k, metadata). NodeEntry k metadata) (entries (nodes g))))
                      (Array (map (\<lambda>(k, v). EdgeEntry k (entries v)) (entries (edges g)))))
     = (Returns (), reloaded g, [])"
  by (simp add: fromJSON_def fromJSON_try_def load_nodes_entries load_edges_entries
      foldl_update_entries reloaded_def)

lemma lookup_foldl_update_alist:
  "DAList.lookup (foldl (\<lambda>m e. DAList.update (fst e) (f e) m) m0 (entries a)) k =
     (case DAList.lookup a k of None \<Rightarrow> DAList.lookup m0 k | Some v \<Rightarrow> Some (f (k, v)))"
  unfolding DAList.lookup.rep_eq
  by (rule lookup_foldl_update [unfolded DAList.lookup.rep_eq]) simp

lemma lookup_edges_reloaded:
  "DAList.lookup (edges (reloaded g)) k =
     (case DAList.lookup (edges g) k of
        Some adj \<Rightarrow> Some adj
      | None \<Rightarrow> if nodeExist g k then Some DAList.empty else None)"
proof -
  have 1: "DAList.lookup (foldl (\<lambda>m e. DAList.update (fst e) DAList.empty m) DAList.empty
              (entries (nodes g))) k = (if nodeExist g k then Some DAList.empty else None)"
    using lookup_foldl_update_alist [of "\<lambda>e. DAList.empty" DAList.empty "nodes g" k]
    by (simp add: nodeExist_def split: option.splits)
  show ?thesis
    using lookup_foldl_update_alist [of snd _ "edges g" k]
    by (simp add: reloaded_def 1 split: option.splits)
qed

lemma weight_of_reloaded: "weight_of (reloaded g) a b = weight_of g a b"
  by (simp add: weight_of_def lookup_edges_reloaded split: option.splits)


lemma symmetric_reloaded: "symmetric g \<Longrightarrow> symmetric (reloaded g)"
  by (simp add: symmetric_iff weight_of_reloaded)

text \<open>
  Claim C2. For every graph \<open>g\<close>, and so for every graph that the Store operations reach,
  \<open>toJSON\<close> returns a text and leaves \<open>g\<close> as it is, and \<open>fromJSON\<close> of that text, called on
  any graph \<open>g0\<close>, returns with nothing written to the console and leaves a graph with the
  node mapping of \<open>g\<close> (the same keys in the same order with the same metadata), with
  every adjacency map of \<open>g\<close> under its key, and with the same weight as \<open>g\<close> for every
  ordered pair of keys; when the adjacency of \<open>g\<close> is symmetric, so is the result's.
\<close>

theorem round_trip:
  "\<exists>str g'. toJSON g = (Returns str, g) \<and> fromJSON g0 str = (Returns (), g', [])
     \<and> nodes g' = nodes g
     \<and> (\<forall>k adj. DAList.lookup (edges g) k = Some adj \<longrightarrow> DAList.lookup (edges g') k = Some adj)
     \<and> (\<forall>a b. weight_of g' a b = weight_of g a b)
     \<and> (symmetric g \<longrightarrow> symmetric g')"
proof (intro exI conjI)
  show "toJSON g = (Returns (Parses (Array (map (\<lambda>(k, metadata). NodeEntry k metadata) (entries (nodes g))))
                      (Array (map (\<lambda>(k, v). EdgeEntry k (entries v)) (entries (edges g))))), g)"
    by (simp add: toJSON_def)
  show "fromJSON g0 (Parses (Array (map (\<lambda>(k, metadata). NodeEntry k metadata) (entries (nodes g))))
                      (Array (map (\<lambda>(k, v). EdgeEntry k (entries v)) (entries (edges g)))))
     = (Returns (), reloaded g, [])"
    by (rule fromJSON_toJSON)
  show "nodes (reloaded g) = nodes g" by (simp add: reloaded_def)
  show "\<forall>k adj. DAList.lookup (edges g) k = Some adj \<longrightarrow> DAList.lookup (edges (reloaded g)) k = Some adj"
    by (simp add: lookup_edges_reloaded)
  show "\<forall>a b. weight_of (reloaded g) a b = weight_of g a b"
    by (simp add: weight_of_reloaded)
  show "symmetric g \<longrightarrow> symmetric (reloaded g)"
    by (simp add: symmetric_reloaded)
qed

theorem round_trip_witness:
  "symmetric abc \<and>
   (\<exists>str g'. toJSON abc = (Returns str, abc) \<and> fromJSON half_built str = (Returns (), g', [])
     \<and> nodes g' = nodes abc \<and> weight_of g' ''C'' ''B'' = Some 4 \<and> symmetric g')"
proof -
  have "weight_of abc ''C'' ''B'' = Some 4"
    by (simp add: abc_eq weight_of_def new_Map_def)
  with round_trip [of abc half_built] symmetric_abc show ?thesis
    by metis
qed

section \<open>Pathfinder: paths\<close>






section \<open>Pathfinder: the loop\<close>







section \<open>Pathfinder: a recorded distance is the cost of a path\<close>



lemma js_lt_simps [simp]:
  "js_lt PInf a = False" "js_lt a NInf = False" "js_lt NaN a = False" "js_lt a NaN = False"
  by (cases a; simp)+











section \<open>Pathfinder: an unreachable destination\<close>







section \<open>Pathfinder: distances in order\<close>

lemma js_lt_irrefl [simp]: "\<not> js_lt a a"
  by (cases a) simp_all

lemma at_most_refl [simp]: "at_most a a"
  by (simp add: at_most_def)

lemma at_most_Fin [simp]: "at_most (Fin a) (Fin b) \<longleftrightarrow> a \<le> b"
  by (auto simp: at_most_def)

lemma at_most_PInf [simp]: "at_most a PInf"
  by (simp add: at_most_def)

lemma at_most_PInf_Fin [simp]: "\<not> at_most PInf (Fin c)"
  by (simp add: at_most_def)

lemma proper_simps [simp]: "proper PInf" "proper (Fin c) \<longleftrightarrow> 0 \<le> c" "\<not> proper NaN" "\<not> proper NInf"
  by (simp_all add: proper_def)









section \<open>Pathfinder: the invariant of the search with non-negative weights\<close>



















section \<open>Pathfinder: the cheapest path\<close>





section \<open>Pathfinder: the sort\<close>










section \<open>Pathfinder: the nearest ready nodes\<close>










end
